theory Spec2Isabelle
  imports Main
begin

section \<open>Values and structural types\<close>

text \<open>
  The module \<^verbatim>\<open>src/bundler/utils/types.ts\<close> consists of type declarations only. To say
  which payloads a declaration admits, the declarations are kept as data (\<open>ty\<close>) and a
  payload is a value (\<open>val\<close>) that either has a type or not (\<open>conforms\<close>), following
  TypeScript's structural rules under strict null checks: an object type constrains the
  properties it names and ignores the others, an optional property may be missing or
  \<^verbatim>\<open>undefined\<close>, an index signature constrains the properties whose key has its key
  type and ignores the others, \<^verbatim>\<open>null\<close> and \<^verbatim>\<open>undefined\<close> belong to no type but
  \<^verbatim>\<open>any\<close> and \<^verbatim>\<open>undefined\<close>. A \<^verbatim>\<open>number\<close> is modelled by an integer; the
  declarations never distinguish fractional values. An object is an association list in
  which the first entry for a key is the property of that name.

  \<open>conforms\<close> is membership of a value in a type. The two further checks the compiler
  makes on the static type of an expression, excess properties of an object literal and
  the detection of weak types (a source that shares no property with an all-optional
  target), depend on how the expression is written and not on the value it denotes: the
  same value passes them once it is held in a variable of a wider type. They are not part
  of \<open>conforms\<close>.
\<close>

datatype val =
    VUndefined
  | VNull
  | VBool bool
  | VNum int
  | VBigint int
  | VStr string
  | VArr "val list"
  | VObj "(string \<times> val) list"

text \<open>
  \<open>TTemplate p\<close> is the template literal type \<^verbatim>\<open>`p${string}`\<close>; \<open>TIndex k t\<close> is the index
  signature \<^verbatim>\<open>{ [x: k]: t }\<close>; \<open>TNamed n t\<close> is a reference to the alias \<open>n\<close> declared
  as \<open>t\<close>; \<open>Required n t\<close> is the property \<^verbatim>\<open>n: t\<close> and \<open>Optional n t\<close> is \<^verbatim>\<open>n?: t\<close>.
\<close>

datatype ty =
    TAny
  | TString
  | TNumber
  | TBigint
  | TUndefined
  | TLit string
  | TTemplate string
  | TUnion ty ty
  | TInter ty ty
  | TArray ty
  | TObj "propsig list"
  | TIndex ty ty
  | TNamed string ty
and propsig =
    Required string ty
  | Optional string ty

fun conforms :: "ty \<Rightarrow> val \<Rightarrow> bool"
and conforms_prop :: "propsig \<Rightarrow> (string \<times> val) list \<Rightarrow> bool" where
  "conforms TAny v = True"
| "conforms TString v = (case v of VStr s \<Rightarrow> True | _ \<Rightarrow> False)"
| "conforms TNumber v = (case v of VNum n \<Rightarrow> True | _ \<Rightarrow> False)"
| "conforms TBigint v = (case v of VBigint n \<Rightarrow> True | _ \<Rightarrow> False)"
| "conforms TUndefined v = (v = VUndefined)"
| "conforms (TLit l) v = (v = VStr l)"
| "conforms (TTemplate p) v = (case v of VStr s \<Rightarrow> take (length p) s = p | _ \<Rightarrow> False)"
| "conforms (TUnion a b) v = (conforms a v \<or> conforms b v)"
| "conforms (TInter a b) v = (conforms a v \<and> conforms b v)"
| "conforms (TArray t) v = (case v of VArr vs \<Rightarrow> list_all (conforms t) vs | _ \<Rightarrow> False)"
| "conforms (TObj ps) v =
     (case v of VObj kvs \<Rightarrow> list_all (\<lambda>p. conforms_prop p kvs) ps | _ \<Rightarrow> False)"
| "conforms (TIndex kt t) v =
     (case v of
        VObj kvs \<Rightarrow>
          list_all (\<lambda>k. case map_of kvs k of None \<Rightarrow> True | Some x \<Rightarrow> conforms t x)
            (filter (\<lambda>k. conforms kt (VStr k)) (map fst kvs))
      | _ \<Rightarrow> False)"
| "conforms (TNamed n t) v = conforms t v"
| "conforms_prop (Required n t) kvs =
     (case map_of kvs n of None \<Rightarrow> False | Some v \<Rightarrow> conforms t v)"
| "conforms_prop (Optional n t) kvs =
     (case map_of kvs n of None \<Rightarrow> True | Some v \<Rightarrow> v = VUndefined \<or> conforms t v)"

fun prop_name :: "propsig \<Rightarrow> string" where
  "prop_name (Required n t) = n"
| "prop_name (Optional n t) = n"

fun prop_type :: "propsig \<Rightarrow> ty" where
  "prop_type (Required n t) = t"
| "prop_type (Optional n t) = t"

section \<open>Imported declarations\<close>

subsection \<open>From viem\<close>

text \<open>
  viem declares \<^verbatim>\<open>Hex\<close>, \<^verbatim>\<open>Address\<close> and \<^verbatim>\<open>Hash\<close> each as \<^verbatim>\<open>`0x${string}`\<close>, and
  \<^verbatim>\<open>PartialBy<T, K>\<close> as \<^verbatim>\<open>Omit<T, K> & Partial<Pick<T, K>>\<close>.
\<close>

definition Hex :: ty where
  "Hex = TNamed ''Hex'' (TTemplate ''0x'')"

definition Address :: ty where
  "Address = TNamed ''Address'' (TTemplate ''0x'')"

definition Hash :: ty where
  "Hash = TNamed ''Hash'' (TTemplate ''0x'')"

definition Omit :: "propsig list \<Rightarrow> string list \<Rightarrow> propsig list" where
  "Omit ps K = filter (\<lambda>p. prop_name p \<notin> set K) ps"

definition Pick :: "propsig list \<Rightarrow> string list \<Rightarrow> propsig list" where
  "Pick ps K = filter (\<lambda>p. prop_name p \<in> set K) ps"

definition Partial :: "propsig list \<Rightarrow> propsig list" where
  "Partial ps = map (\<lambda>p. Optional (prop_name p) (prop_type p)) ps"

definition PartialBy :: "propsig list \<Rightarrow> string list \<Rightarrow> ty" where
  "PartialBy ps K = TInter (TObj (Omit ps K)) (TObj (Partial (Pick ps K)))"

subsection \<open>From the accounts module\<close>

text \<open>
  \<^verbatim>\<open>UserOperationStruct\<close> and \<^verbatim>\<open>ENTRYPOINT_ADDRESS_V06_TYPE\<close> are imported from
  \<^verbatim>\<open>../../accounts\<close>; types.ts does not say how they are declared. The schema is
  therefore parametric in the property list \<open>uo\<close> of the former and in the type \<open>ep\<close>
  the latter stands for.
\<close>

definition UserOperationStruct :: "propsig list \<Rightarrow> ty" where
  "UserOperationStruct uo = TNamed ''UserOperationStruct'' (TObj uo)"

definition ENTRYPOINT_ADDRESS_V06_TYPE :: "ty \<Rightarrow> ty" where
  "ENTRYPOINT_ADDRESS_V06_TYPE ep = TNamed ''ENTRYPOINT_ADDRESS_V06_TYPE'' ep"

text \<open>
  Modelled from the spec: the property list of \<^verbatim>\<open>UserOperationStruct\<close>, whose declaration
  is missing. The data model lists as required fields the sender address, nonce, call
  data, the call, verification and pre-verification gas limits, the two fee caps and an
  opaque signature blob; addresses are \<^verbatim>\<open>0x\<close>-prefixed strings, and the encoding of the
  other fields is left open.
\<close>

definition UserOperation_props :: "propsig list" where
  "UserOperation_props =
    [ Required ''sender'' Address,
      Required ''nonce'' TAny,
      Required ''callData'' TAny,
      Required ''callGasLimit'' TAny,
      Required ''verificationGasLimit'' TAny,
      Required ''preVerificationGas'' TAny,
      Required ''maxFeePerGas'' TAny,
      Required ''maxPriorityFeePerGas'' TAny,
      Required ''signature'' TAny ]"

text \<open>
  Modelled from the spec: the type behind \<^verbatim>\<open>ENTRYPOINT_ADDRESS_V06_TYPE\<close>, whose
  declaration is missing. The data model calls it a fixed, versioned contract address.
\<close>

definition EntryPointAddress :: ty where
  "EntryPointAddress = Address"

section \<open>The declarations of types.ts\<close>

text \<open>A labelled tuple element \<^verbatim>\<open>name: T\<close> or \<^verbatim>\<open>name?: T\<close>.\<close>

datatype param =
    Param string ty
  | OptParam string ty

fun param_type :: "param \<Rightarrow> ty" where
  "param_type (Param n t) = t"
| "param_type (OptParam n t) = t"

record rpc_method =
  Method :: string
  Parameters :: "param list"
  ReturnType :: ty

definition StateOverrides :: ty where
  "StateOverrides =
    TNamed ''StateOverrides''
      (TIndex TString
        (TObj
          [ Optional ''balance'' (TUnion TBigint TUndefined),
            Optional ''nonce'' (TUnion TBigint (TUnion TNumber TUndefined)),
            Optional ''code'' (TUnion Hex TUndefined),
            Optional ''state'' (TIndex Hex Hex),
            Optional ''stateDiff'' (TIndex Hex Hex) ]))"

definition EstimateUserOperationGasParameters :: "propsig list \<Rightarrow> ty" where
  "EstimateUserOperationGasParameters uo =
    TNamed ''EstimateUserOperationGasParameters''
      (TObj [ Required ''userOperation'' (UserOperationStruct uo) ])"

definition TStatus :: ty where
  "TStatus = TNamed ''TStatus'' (TUnion (TLit ''success'') (TLit ''reverted''))"

definition UserOpReceipt :: ty where
  "UserOpReceipt =
    TNamed ''UserOpReceipt''
      (TObj
        [ Required ''userOpHash'' TString,
          Required ''entryPoint'' TString,
          Required ''paymaster'' TString,
          Required ''actualGasCost'' Hex,
          Required ''actualGasUsed'' Hex,
          Required ''success'' (TUnion (TLit ''true'') (TLit ''false'')),
          Required ''reason'' TString,
          Required ''logs'' (TArray TAny),
          Required ''receipt'' TAny ])"

definition GasFeeValues :: ty where
  "GasFeeValues =
    TNamed ''GasFeeValues''
      (TObj
        [ Required ''maxPriorityFeePerGas'' TString,
          Required ''maxFeePerGas'' TString ])"

definition GetGasFeeValuesReturnType :: ty where
  "GetGasFeeValuesReturnType = TNamed ''GetGasFeeValuesReturnType'' GasFeeValues"

definition JsonRpcError :: ty where
  "JsonRpcError =
    TNamed ''JsonRpcError''
      (TObj
        [ Required ''code'' TString,
          Required ''message'' TString,
          Required ''data'' TAny ])"

definition SendUserOpResponse :: ty where
  "SendUserOpResponse =
    TNamed ''SendUserOpResponse''
      (TObj
        [ Required ''jsonrpc'' TString,
          Required ''id'' TNumber,
          Required ''result'' TString,
          Optional ''error'' JsonRpcError ])"

definition UserOpStatus :: ty where
  "UserOpStatus =
    TNamed ''UserOpStatus''
      (TObj
        [ Required ''state'' TString,
          Optional ''transactionHash'' TString,
          Optional ''userOperationReceipt'' UserOpReceipt ])"

definition BundlerRpcSchema :: "propsig list \<Rightarrow> ty \<Rightarrow> rpc_method list" where
  "BundlerRpcSchema uo ep =
    [ \<lparr> Method = ''eth_sendUserOperation'',
        Parameters =
          [ Param ''userOperation'' (UserOperationStruct uo),
            Param ''entryPointAddress'' (ENTRYPOINT_ADDRESS_V06_TYPE ep) ],
        ReturnType = Hash \<rparr>,
      \<lparr> Method = ''eth_estimateUserOperationGas'',
        Parameters =
          [ Param ''userOperation''
              (PartialBy uo [''callGasLimit'', ''preVerificationGas'', ''verificationGasLimit'']),
            Param ''entryPointAddress'' (ENTRYPOINT_ADDRESS_V06_TYPE ep),
            OptParam ''stateOverrides'' StateOverrides ],
        ReturnType =
          TObj
            [ Required ''preVerificationGas'' TString,
              Required ''verificationGasLimit'' TString,
              Optional ''callGasLimit'' TString,
              Required ''maxPriorityFeePerGas'' TString,
              Required ''maxFeePerGas'' TString ] \<rparr>,
      \<lparr> Method = ''eth_supportedEntryPoints'',
        Parameters = [],
        ReturnType = TArray Address \<rparr>,
      \<lparr> Method = ''eth_chainId'',
        Parameters = [],
        ReturnType = Hex \<rparr>,
      \<lparr> Method = ''eth_getUserOperationByHash'',
        Parameters = [ Param ''hash'' Hash ],
        ReturnType =
          TInter (UserOperationStruct uo)
            (TObj
              [ Required ''entryPoint'' (ENTRYPOINT_ADDRESS_V06_TYPE ep),
                Required ''transactionHash'' Hash,
                Required ''blockHash'' Hash,
                Required ''blockNumber'' Hex ]) \<rparr>,
      \<lparr> Method = ''eth_getUserOperationReceipt'',
        Parameters = [ Param ''hash'' Hash ],
        ReturnType = UserOpReceipt \<rparr>,
      \<lparr> Method = ''biconomy_getGasFeeValues'',
        Parameters = [],
        ReturnType = GasFeeValues \<rparr>,
      \<lparr> Method = ''biconomy_getUserOperationStatus'',
        Parameters = [ Param ''userOpHash'' Hash ],
        ReturnType = UserOpStatus \<rparr> ]"

section \<open>Reading the schema\<close>

definition find_method :: "string \<Rightarrow> rpc_method list \<Rightarrow> rpc_method option" where
  "find_method name schema = find (\<lambda>m. Method m = name) schema"

definition parameters_of :: "string \<Rightarrow> rpc_method list \<Rightarrow> param list option" where
  "parameters_of name schema = map_option Parameters (find_method name schema)"

definition return_type_of :: "string \<Rightarrow> rpc_method list \<Rightarrow> ty option" where
  "return_type_of name schema = map_option ReturnType (find_method name schema)"

text \<open>A value is a well-typed result of the named method of a schema.\<close>

definition accepts_result :: "string \<Rightarrow> rpc_method list \<Rightarrow> val \<Rightarrow> bool" where
  "accepts_result name schema v =
    (case return_type_of name schema of None \<Rightarrow> False | Some t \<Rightarrow> conforms t v)"

text \<open>The methods that take a parameter of a given type, with that parameter.\<close>

definition methods_taking :: "ty \<Rightarrow> rpc_method list \<Rightarrow> (string \<times> param) list" where
  "methods_taking t schema =
    concat (map (\<lambda>m. map (\<lambda>p. (Method m, p)) (filter (\<lambda>p. param_type p = t) (Parameters m)))
      schema)"

text \<open>The two bases a quantity carried in a string can be written in.\<close>

definition is_decimal :: "string \<Rightarrow> bool" where
  "is_decimal s = (s \<noteq> [] \<and> list_all (\<lambda>c. c \<in> set ''0123456789'') s)"

definition is_hex :: "string \<Rightarrow> bool" where
  "is_hex s =
    (take 2 s = ''0x'' \<and> drop 2 s \<noteq> [] \<and>
     list_all (\<lambda>c. c \<in> set ''0123456789abcdefABCDEF'') (drop 2 s))"

section \<open>Sample payloads\<close>

text \<open>
  A user operation with the fields of the one signed in \<^verbatim>\<open>tests/ep6/account.test.ts\<close>
  (the byte strings shortened).
\<close>

definition sample_userOp :: "(string \<times> val) list" where
  "sample_userOp =
    [ (''sender'', VStr ''0x99F3Bc8058503960364Ef3fDBF6407C9b0BbefCc''),
      (''nonce'', VBigint 0),
      (''initCode'', VStr ''0x000000a56Aaca3e9a4C479ea6b6CD0DbcB6634F5''),
      (''callData'', VStr ''0x0000189a''),
      (''signature'', VStr ''0x00000000''),
      (''paymasterAndData'', VStr ''0x''),
      (''callGasLimit'', VBigint 0),
      (''verificationGasLimit'', VBigint 0),
      (''preVerificationGas'', VBigint 0),
      (''maxFeePerGas'', VBigint 0),
      (''maxPriorityFeePerGas'', VBigint 0) ]"

text \<open>The receipt of an operation that ran without reverting.\<close>

definition sample_receipt :: "(string \<times> val) list" where
  "sample_receipt =
    [ (''userOpHash'', VStr ''0x01''),
      (''entryPoint'', VStr ''0x5FF137D4b0FDCD49DcA30c7CF57E578a026d2789''),
      (''paymaster'', VStr []),
      (''actualGasCost'', VStr ''0x10''),
      (''actualGasUsed'', VStr ''0x20''),
      (''success'', VStr ''true''),
      (''reason'', VStr []),
      (''logs'', VArr []),
      (''receipt'', VObj []) ]"

section \<open>Conformance of the leaf types\<close>

lemma template_0x: "take (Suc (Suc 0)) s = ''0x'' \<longleftrightarrow> (\<exists>r. s = ''0x'' @ r)"
proof (cases s)
  case Nil
  then show ?thesis by simp
next
  case (Cons a s')
  then show ?thesis by (cases s') auto
qed

lemma conforms_Hex: "conforms Hex v \<longleftrightarrow> (\<exists>r. v = VStr (''0x'' @ r))"
  by (cases v) (simp_all add: Hex_def template_0x)

lemma required_string:
  "conforms_prop (Required n TString) kvs \<longleftrightarrow> (\<exists>s. map_of kvs n = Some (VStr s))"
  by (auto split: option.splits val.splits)

lemma required_number:
  "conforms_prop (Required n TNumber) kvs \<longleftrightarrow> (\<exists>i. map_of kvs n = Some (VNum i))"
  by (auto split: option.splits val.splits)

lemma required_any:
  "conforms_prop (Required n TAny) kvs \<longleftrightarrow> (\<exists>d. map_of kvs n = Some d)"
  by (auto split: option.splits)

lemma required_Hex:
  "conforms_prop (Required n Hex) kvs \<longleftrightarrow> (\<exists>r. map_of kvs n = Some (VStr (''0x'' @ r)))"
  by (simp add: conforms_Hex split: option.splits)

lemma optional_prop:
  "conforms_prop (Optional n t) kvs \<longleftrightarrow>
   (map_of kvs n = None \<or> map_of kvs n = Some VUndefined \<or>
    (\<exists>v. map_of kvs n = Some v \<and> conforms t v))"
  by (auto split: option.splits)

lemma optional_string:
  "conforms_prop (Optional n TString) kvs \<longleftrightarrow>
   (map_of kvs n = None \<or> map_of kvs n = Some VUndefined \<or>
    (\<exists>s. map_of kvs n = Some (VStr s)))"
  by (auto split: option.splits val.splits)

lemma not_decimal_0x: "\<not> is_decimal (''0x'' @ r)"
  by (simp add: is_decimal_def)

lemma conforms_Hash: "conforms Hash v \<longleftrightarrow> (\<exists>r. v = VStr (''0x'' @ r))"
  by (cases v) (simp_all add: Hash_def template_0x)

lemma required_Hash:
  "conforms_prop (Required n Hash) kvs \<longleftrightarrow> (\<exists>r. map_of kvs n = Some (VStr (''0x'' @ r)))"
  by (simp add: conforms_Hash split: option.splits)

lemma required_prop:
  "conforms_prop (Required n t) kvs \<longleftrightarrow> (\<exists>v. map_of kvs n = Some v \<and> conforms t v)"
  by (auto split: option.splits)

lemma required_one_of:
  "conforms_prop (Required n (TUnion (TLit a) (TLit b))) kvs \<longleftrightarrow>
   (map_of kvs n = Some (VStr a) \<or> map_of kvs n = Some (VStr b))"
  by (auto split: option.splits)

lemma required_any_array:
  "conforms_prop (Required n (TArray TAny)) kvs \<longleftrightarrow> (\<exists>vs. map_of kvs n = Some (VArr vs))"
  by (auto simp: list_all_iff split: option.splits val.splits)

section \<open>Conformance of state overrides\<close>

text \<open>
  An override keyed by an account address, with a balance, a nonce and a storage slot, is
  a \<^verbatim>\<open>StateOverrides\<close>. A storage slot whose value lacks the \<^verbatim>\<open>0x\<close> prefix is not, and
  neither is a balance given as a string. A property of \<^verbatim>\<open>state\<close> whose key lacks the
  prefix is outside the index signature and is left unconstrained.
\<close>

lemma StateOverrides_accepts:
  "conforms StateOverrides
     (VObj [ (''0x99F3Bc8058503960364Ef3fDBF6407C9b0BbefCc'',
              VObj [ (''balance'', VBigint 1000),
                     (''nonce'', VNum 1),
                     (''state'', VObj [ (''0x00'', VStr ''0x01'') ]) ]) ])"
  "conforms StateOverrides
     (VObj [ (''0x99F3Bc8058503960364Ef3fDBF6407C9b0BbefCc'',
              VObj [ (''state'', VObj [ (''slot'', VStr ''01'') ]) ]) ])"
  by (simp_all add: StateOverrides_def Hex_def)

lemma StateOverrides_rejects:
  "\<not> conforms StateOverrides
     (VObj [ (''0x99F3Bc8058503960364Ef3fDBF6407C9b0BbefCc'',
              VObj [ (''state'', VObj [ (''0x00'', VStr ''01'') ]) ]) ])"
  "\<not> conforms StateOverrides
     (VObj [ (''0x99F3Bc8058503960364Ef3fDBF6407C9b0BbefCc'',
              VObj [ (''balance'', VStr ''1000'') ]) ])"
  by (simp_all add: StateOverrides_def Hex_def)

section \<open>Omitting properties from a payload\<close>

lemma map_of_filter_keys:
  "map_of (filter (\<lambda>kv. fst kv \<notin> S) kvs) n = (if n \<in> S then None else map_of kvs n)"
  by (induction kvs) auto

lemma conforms_prop_drop:
  "prop_name p \<notin> S \<Longrightarrow> conforms_prop p (filter (\<lambda>kv. fst kv \<notin> S) kvs) = conforms_prop p kvs"
  by (cases p) (simp_all add: map_of_filter_keys)

lemma conforms_prop_partial:
  "conforms_prop p kvs \<Longrightarrow>
   conforms_prop (Optional (prop_name p) (prop_type p)) (filter (\<lambda>kv. fst kv \<notin> S) kvs)"
  by (cases p) (auto simp: map_of_filter_keys split: option.splits)

lemma conforms_PartialBy_drop:
  assumes "conforms (TObj uo) (VObj kvs)" and "S \<subseteq> set K"
  shows "conforms (PartialBy uo K) (VObj (filter (\<lambda>kv. fst kv \<notin> S) kvs))"
proof -
  from assms(1) have all: "\<forall>p \<in> set uo. conforms_prop p kvs"
    by (simp add: list_all_iff)
  have "\<forall>p \<in> set (Omit uo K). conforms_prop p (filter (\<lambda>kv. fst kv \<notin> S) kvs)"
  proof
    fix p assume "p \<in> set (Omit uo K)"
    then have mem: "p \<in> set uo" and "prop_name p \<notin> set K"
      by (simp_all add: Omit_def)
    with assms(2) have "prop_name p \<notin> S" by blast
    with all mem show "conforms_prop p (filter (\<lambda>kv. fst kv \<notin> S) kvs)"
      by (simp add: conforms_prop_drop)
  qed
  moreover have "\<forall>q \<in> set (Partial (Pick uo K)). conforms_prop q (filter (\<lambda>kv. fst kv \<notin> S) kvs)"
  proof
    fix q assume "q \<in> set (Partial (Pick uo K))"
    then obtain p where "p \<in> set uo" and q: "q = Optional (prop_name p) (prop_type p)"
      by (auto simp: Partial_def Pick_def)
    with all have "conforms_prop p kvs" by blast
    then show "conforms_prop q (filter (\<lambda>kv. fst kv \<notin> S) kvs)"
      unfolding q by (rule conforms_prop_partial)
  qed
  ultimately show ?thesis
    by (simp add: PartialBy_def list_all_iff)
qed

lemma PartialBy_keeps_required:
  assumes "Required n t \<in> set uo" and "n \<notin> set K" and "map_of kvs n = None"
  shows "\<not> conforms (PartialBy uo K) (VObj kvs)"
proof
  assume "conforms (PartialBy uo K) (VObj kvs)"
  then have "\<forall>p \<in> set (Omit uo K). conforms_prop p kvs"
    by (simp add: PartialBy_def list_all_iff)
  moreover have "Required n t \<in> set (Omit uo K)"
    using assms(1,2) by (simp add: Omit_def)
  ultimately have "conforms_prop (Required n t) kvs" by blast
  with assms(3) show False by simp
qed

section \<open>Looking methods up\<close>

lemma find_method_names:
  "find_method name schema \<noteq> None \<longleftrightarrow> name \<in> set (map Method schema)"
  by (induction schema) (auto simp: find_method_def)

lemma return_types:
  "return_type_of ''eth_estimateUserOperationGas'' (BundlerRpcSchema uo ep) =
     Some (TObj
            [ Required ''preVerificationGas'' TString,
              Required ''verificationGasLimit'' TString,
              Optional ''callGasLimit'' TString,
              Required ''maxPriorityFeePerGas'' TString,
              Required ''maxFeePerGas'' TString ])"
  "return_type_of ''eth_chainId'' (BundlerRpcSchema uo ep) = Some Hex"
  "return_type_of ''eth_getUserOperationByHash'' (BundlerRpcSchema uo ep) =
     Some (TInter (UserOperationStruct uo)
            (TObj
              [ Required ''entryPoint'' (ENTRYPOINT_ADDRESS_V06_TYPE ep),
                Required ''transactionHash'' Hash,
                Required ''blockHash'' Hash,
                Required ''blockNumber'' Hex ]))"
  "return_type_of ''eth_getUserOperationReceipt'' (BundlerRpcSchema uo ep) = Some UserOpReceipt"
  "return_type_of ''biconomy_getGasFeeValues'' (BundlerRpcSchema uo ep) = Some GasFeeValues"
  by (simp_all add: return_type_of_def find_method_def BundlerRpcSchema_def)

section \<open>The method set\<close>

text \<open>
  Claim C1. Whatever \<^verbatim>\<open>UserOperationStruct\<close> and the entry-point type are declared as,
  the schema lists exactly eight methods, in this order and without repetition:
  \<^verbatim>\<open>eth_sendUserOperation\<close>, \<^verbatim>\<open>eth_estimateUserOperationGas\<close>,
  \<^verbatim>\<open>eth_supportedEntryPoints\<close>, \<^verbatim>\<open>eth_chainId\<close>, \<^verbatim>\<open>eth_getUserOperationByHash\<close>,
  \<^verbatim>\<open>eth_getUserOperationReceipt\<close>, \<^verbatim>\<open>biconomy_getGasFeeValues\<close> and
  \<^verbatim>\<open>biconomy_getUserOperationStatus\<close>. Each entry is a triple of a name, a parameter
  tuple and a return type; the parameter tuples are (user operation, entry point),
  (user operation with optional gas fields, entry point, state overrides), (), (), (hash),
  (hash), () and (hash), and the return types are those of the method table. A name
  outside the eight is not found in the schema.
\<close>

theorem schema_has_exactly_eight_methods:
  "map Method (BundlerRpcSchema uo ep) =
     [''eth_sendUserOperation'', ''eth_estimateUserOperationGas'', ''eth_supportedEntryPoints'',
      ''eth_chainId'', ''eth_getUserOperationByHash'', ''eth_getUserOperationReceipt'',
      ''biconomy_getGasFeeValues'', ''biconomy_getUserOperationStatus'']
   \<and> distinct (map Method (BundlerRpcSchema uo ep))
   \<and> map Parameters (BundlerRpcSchema uo ep) =
     [[Param ''userOperation'' (UserOperationStruct uo),
       Param ''entryPointAddress'' (ENTRYPOINT_ADDRESS_V06_TYPE ep)],
      [Param ''userOperation''
         (PartialBy uo [''callGasLimit'', ''preVerificationGas'', ''verificationGasLimit'']),
       Param ''entryPointAddress'' (ENTRYPOINT_ADDRESS_V06_TYPE ep),
       OptParam ''stateOverrides'' StateOverrides],
      [], [], [Param ''hash'' Hash], [Param ''hash'' Hash], [], [Param ''userOpHash'' Hash]]
   \<and> map ReturnType (BundlerRpcSchema uo ep) =
     [Hash,
      TObj [Required ''preVerificationGas'' TString, Required ''verificationGasLimit'' TString,
            Optional ''callGasLimit'' TString, Required ''maxPriorityFeePerGas'' TString,
            Required ''maxFeePerGas'' TString],
      TArray Address,
      Hex,
      TInter (UserOperationStruct uo)
        (TObj [Required ''entryPoint'' (ENTRYPOINT_ADDRESS_V06_TYPE ep),
               Required ''transactionHash'' Hash, Required ''blockHash'' Hash,
               Required ''blockNumber'' Hex]),
      UserOpReceipt,
      GasFeeValues,
      UserOpStatus]
   \<and> (name \<notin> set [''eth_sendUserOperation'', ''eth_estimateUserOperationGas'',
         ''eth_supportedEntryPoints'', ''eth_chainId'', ''eth_getUserOperationByHash'',
         ''eth_getUserOperationReceipt'', ''biconomy_getGasFeeValues'',
         ''biconomy_getUserOperationStatus'']
       \<longrightarrow> find_method name (BundlerRpcSchema uo ep) = None)"
proof -
  have names: "map Method (BundlerRpcSchema uo ep) =
     [''eth_sendUserOperation'', ''eth_estimateUserOperationGas'', ''eth_supportedEntryPoints'',
      ''eth_chainId'', ''eth_getUserOperationByHash'', ''eth_getUserOperationReceipt'',
      ''biconomy_getGasFeeValues'', ''biconomy_getUserOperationStatus'']"
    by (simp add: BundlerRpcSchema_def)
  have dist: "distinct (map Method (BundlerRpcSchema uo ep))"
    unfolding names by simp
  have params: "map Parameters (BundlerRpcSchema uo ep) =
     [[Param ''userOperation'' (UserOperationStruct uo),
       Param ''entryPointAddress'' (ENTRYPOINT_ADDRESS_V06_TYPE ep)],
      [Param ''userOperation''
         (PartialBy uo [''callGasLimit'', ''preVerificationGas'', ''verificationGasLimit'']),
       Param ''entryPointAddress'' (ENTRYPOINT_ADDRESS_V06_TYPE ep),
       OptParam ''stateOverrides'' StateOverrides],
      [], [], [Param ''hash'' Hash], [Param ''hash'' Hash], [], [Param ''userOpHash'' Hash]]"
    by (simp add: BundlerRpcSchema_def)
  have returns: "map ReturnType (BundlerRpcSchema uo ep) =
     [Hash,
      TObj [Required ''preVerificationGas'' TString, Required ''verificationGasLimit'' TString,
            Optional ''callGasLimit'' TString, Required ''maxPriorityFeePerGas'' TString,
            Required ''maxFeePerGas'' TString],
      TArray Address,
      Hex,
      TInter (UserOperationStruct uo)
        (TObj [Required ''entryPoint'' (ENTRYPOINT_ADDRESS_V06_TYPE ep),
               Required ''transactionHash'' Hash, Required ''blockHash'' Hash,
               Required ''blockNumber'' Hex]),
      UserOpReceipt,
      GasFeeValues,
      UserOpStatus]"
    by (simp add: BundlerRpcSchema_def)
  have closed: "name \<notin> set (map Method (BundlerRpcSchema uo ep))
      \<longrightarrow> find_method name (BundlerRpcSchema uo ep) = None"
    using find_method_names [of name "BundlerRpcSchema uo ep"] by blast
  show ?thesis
    using names dist params returns closed by (simp only: simp_thms)
qed

text \<open>
  Claim C1, at a concrete input: \<^verbatim>\<open>eth_call\<close> is none of the eight names and is not
  found in the schema.
\<close>

theorem schema_has_exactly_eight_methods_witness:
  "''eth_call'' \<notin> set [''eth_sendUserOperation'', ''eth_estimateUserOperationGas'',
         ''eth_supportedEntryPoints'', ''eth_chainId'', ''eth_getUserOperationByHash'',
         ''eth_getUserOperationReceipt'', ''biconomy_getGasFeeValues'',
         ''biconomy_getUserOperationStatus'']
   \<and> find_method ''eth_call'' (BundlerRpcSchema UserOperation_props EntryPointAddress) = None"
  using schema_has_exactly_eight_methods [of UserOperation_props EntryPointAddress "''eth_call''"]
  by simp

section \<open>The estimation request\<close>

text \<open>
  Claim C2. The first parameter of \<^verbatim>\<open>eth_estimateUserOperationGas\<close> is the user
  operation with \<^verbatim>\<open>callGasLimit\<close>, \<^verbatim>\<open>preVerificationGas\<close> and \<^verbatim>\<open>verificationGasLimit\<close>
  made optional. For every user operation record, dropping any of these three properties
  (any subset \<open>S\<close> of them) leaves a value of that parameter type; and every other property
  that \<^verbatim>\<open>UserOperationStruct\<close> requires is still required: a record without it is not of
  the parameter type.
\<close>

theorem estimate_gas_fields_optional:
  "parameters_of ''eth_estimateUserOperationGas'' (BundlerRpcSchema uo ep) =
     Some [ Param ''userOperation''
              (PartialBy uo [''callGasLimit'', ''preVerificationGas'', ''verificationGasLimit'']),
            Param ''entryPointAddress'' (ENTRYPOINT_ADDRESS_V06_TYPE ep),
            OptParam ''stateOverrides'' StateOverrides ]
   \<and> (conforms (UserOperationStruct uo) (VObj kvs)
        \<and> S \<subseteq> {''callGasLimit'', ''preVerificationGas'', ''verificationGasLimit''}
      \<longrightarrow> conforms
            (PartialBy uo [''callGasLimit'', ''preVerificationGas'', ''verificationGasLimit''])
            (VObj (filter (\<lambda>kv. fst kv \<notin> S) kvs)))
   \<and> (Required n t \<in> set uo
        \<and> n \<notin> {''callGasLimit'', ''preVerificationGas'', ''verificationGasLimit''}
        \<and> map_of kvs' n = None
      \<longrightarrow> \<not> conforms
            (PartialBy uo [''callGasLimit'', ''preVerificationGas'', ''verificationGasLimit''])
            (VObj kvs'))"
proof (intro conjI impI)
  show "parameters_of ''eth_estimateUserOperationGas'' (BundlerRpcSchema uo ep) =
     Some [ Param ''userOperation''
              (PartialBy uo [''callGasLimit'', ''preVerificationGas'', ''verificationGasLimit'']),
            Param ''entryPointAddress'' (ENTRYPOINT_ADDRESS_V06_TYPE ep),
            OptParam ''stateOverrides'' StateOverrides ]"
    by (simp add: parameters_of_def find_method_def BundlerRpcSchema_def)
next
  assume a: "conforms (UserOperationStruct uo) (VObj kvs)
        \<and> S \<subseteq> {''callGasLimit'', ''preVerificationGas'', ''verificationGasLimit''}"
  then have "conforms (TObj uo) (VObj kvs)"
    by (simp add: UserOperationStruct_def)
  moreover from a have "S \<subseteq> set [''callGasLimit'', ''preVerificationGas'', ''verificationGasLimit'']"
    by simp
  ultimately show "conforms
            (PartialBy uo [''callGasLimit'', ''preVerificationGas'', ''verificationGasLimit''])
            (VObj (filter (\<lambda>kv. fst kv \<notin> S) kvs))"
    by (rule conforms_PartialBy_drop)
next
  assume a: "Required n t \<in> set uo
        \<and> n \<notin> {''callGasLimit'', ''preVerificationGas'', ''verificationGasLimit''}
        \<and> map_of kvs' n = None"
  show "\<not> conforms
            (PartialBy uo [''callGasLimit'', ''preVerificationGas'', ''verificationGasLimit''])
            (VObj kvs')"
    by (rule PartialBy_keeps_required [of n t]) (use a in simp_all)
qed

text \<open>
  Claim C2, at a concrete input: the sample user operation is a \<^verbatim>\<open>UserOperationStruct\<close>;
  without its three gas fields it is accepted as the estimation parameter; and the empty
  record, which lacks the required \<^verbatim>\<open>sender\<close>, is not.
\<close>

theorem estimate_gas_fields_optional_witness:
  "conforms (UserOperationStruct UserOperation_props) (VObj sample_userOp)
   \<and> {''callGasLimit'', ''preVerificationGas'', ''verificationGasLimit''}
       \<subseteq> {''callGasLimit'', ''preVerificationGas'', ''verificationGasLimit''}
   \<and> conforms
       (PartialBy UserOperation_props
          [''callGasLimit'', ''preVerificationGas'', ''verificationGasLimit''])
       (VObj [ (''sender'', VStr ''0x99F3Bc8058503960364Ef3fDBF6407C9b0BbefCc''),
               (''nonce'', VBigint 0),
               (''initCode'', VStr ''0x000000a56Aaca3e9a4C479ea6b6CD0DbcB6634F5''),
               (''callData'', VStr ''0x0000189a''),
               (''signature'', VStr ''0x00000000''),
               (''paymasterAndData'', VStr ''0x''),
               (''maxFeePerGas'', VBigint 0),
               (''maxPriorityFeePerGas'', VBigint 0) ])
   \<and> Required ''sender'' Address \<in> set UserOperation_props
   \<and> ''sender'' \<notin> {''callGasLimit'', ''preVerificationGas'', ''verificationGasLimit''}
   \<and> map_of ([] :: (string \<times> val) list) ''sender'' = None
   \<and> \<not> conforms
       (PartialBy UserOperation_props
          [''callGasLimit'', ''preVerificationGas'', ''verificationGasLimit''])
       (VObj [])"
  using estimate_gas_fields_optional
    [of UserOperation_props EntryPointAddress sample_userOp
        "{''callGasLimit'', ''preVerificationGas'', ''verificationGasLimit''}"
        "''sender''" Address "[]"]
  by (simp add: UserOperation_props_def UserOperationStruct_def sample_userOp_def Address_def)

section \<open>The estimation result\<close>

text \<open>
  Claim C3, as stated, fails: the declared return type of
  \<^verbatim>\<open>eth_estimateUserOperationGas\<close> types its fields as \<^verbatim>\<open>string\<close>, so a response
  whose \<^verbatim>\<open>preVerificationGas\<close> is the text \<^verbatim>\<open>unknown\<close>, neither a decimal nor a
  hexadecimal numeral, is a well-typed result.
\<close>

theorem estimate_result_not_numeric_counterexample:
  "accepts_result ''eth_estimateUserOperationGas''
     (BundlerRpcSchema UserOperation_props EntryPointAddress)
     (VObj [ (''preVerificationGas'', VStr ''unknown''),
             (''verificationGasLimit'', VStr ''21000''),
             (''maxPriorityFeePerGas'', VStr ''1''),
             (''maxFeePerGas'', VStr ''2'') ])
   \<and> \<not> is_decimal ''unknown'' \<and> \<not> is_hex ''unknown''"
  by (simp add: accepts_result_def return_types is_decimal_def is_hex_def)

text \<open>
  Claim C3, amended. The return type of \<^verbatim>\<open>eth_estimateUserOperationGas\<close> declares
  exactly five properties, and a value is a well-typed result exactly when it is an object
  in which \<^verbatim>\<open>preVerificationGas\<close>, \<^verbatim>\<open>verificationGasLimit\<close>, \<^verbatim>\<open>maxPriorityFeePerGas\<close>
  and \<^verbatim>\<open>maxFeePerGas\<close> are present and are strings (of any content), and
  \<^verbatim>\<open>callGasLimit\<close> is absent, undefined or a string.
\<close>

theorem estimate_result_shape:
  "return_type_of ''eth_estimateUserOperationGas'' (BundlerRpcSchema uo ep) =
     Some (TObj
            [ Required ''preVerificationGas'' TString,
              Required ''verificationGasLimit'' TString,
              Optional ''callGasLimit'' TString,
              Required ''maxPriorityFeePerGas'' TString,
              Required ''maxFeePerGas'' TString ])
   \<and> (accepts_result ''eth_estimateUserOperationGas'' (BundlerRpcSchema uo ep) v \<longleftrightarrow>
        (\<exists>kvs. v = VObj kvs \<and>
          (\<exists>s. map_of kvs ''preVerificationGas'' = Some (VStr s)) \<and>
          (\<exists>s. map_of kvs ''verificationGasLimit'' = Some (VStr s)) \<and>
          (map_of kvs ''callGasLimit'' = None \<or> map_of kvs ''callGasLimit'' = Some VUndefined \<or>
            (\<exists>s. map_of kvs ''callGasLimit'' = Some (VStr s))) \<and>
          (\<exists>s. map_of kvs ''maxPriorityFeePerGas'' = Some (VStr s)) \<and>
          (\<exists>s. map_of kvs ''maxFeePerGas'' = Some (VStr s))))"
proof (cases v)
  case (VObj kvs)
  show ?thesis
    unfolding accepts_result_def return_types VObj
    by (simp only: conforms.simps val.case val.inject list.pred_inject required_string
        optional_string option.case simp_thms ex_simps simp_thms)
qed (simp_all add: accepts_result_def return_types)

section \<open>State overrides\<close>

text \<open>
  Claim C4. Among the eight methods, the only parameter of type \<^verbatim>\<open>StateOverrides\<close> is
  the third parameter of \<^verbatim>\<open>eth_estimateUserOperationGas\<close>, and it is optional.
\<close>

theorem state_overrides_only_on_estimate:
  "methods_taking StateOverrides (BundlerRpcSchema uo ep) =
     [(''eth_estimateUserOperationGas'', OptParam ''stateOverrides'' StateOverrides)]"
  by (simp add: methods_taking_def BundlerRpcSchema_def StateOverrides_def
      UserOperationStruct_def ENTRYPOINT_ADDRESS_V06_TYPE_def PartialBy_def Hash_def)

section \<open>Queries for an unknown hash\<close>

text \<open>
  Claim C5, as stated, fails: \<^verbatim>\<open>null\<close> is a well-typed result neither of
  \<^verbatim>\<open>eth_getUserOperationByHash\<close> nor of \<^verbatim>\<open>eth_getUserOperationReceipt\<close>.
\<close>

theorem lookup_result_null_counterexample:
  "\<not> accepts_result ''eth_getUserOperationByHash''
       (BundlerRpcSchema UserOperation_props EntryPointAddress) VNull
   \<and> \<not> accepts_result ''eth_getUserOperationReceipt''
       (BundlerRpcSchema UserOperation_props EntryPointAddress) VNull"
  by (simp add: accepts_result_def return_types UserOpReceipt_def)

text \<open>
  Claim C5, amended. Whatever \<^verbatim>\<open>UserOperationStruct\<close> is declared as, the declared
  return types of \<^verbatim>\<open>eth_getUserOperationByHash\<close> and \<^verbatim>\<open>eth_getUserOperationReceipt\<close>
  admit no null-equivalent value: \<^verbatim>\<open>null\<close>, \<^verbatim>\<open>undefined\<close> and the empty object are not
  well-typed results of either method.
\<close>

theorem lookup_results_not_nullable:
  "\<not> accepts_result ''eth_getUserOperationByHash'' (BundlerRpcSchema uo ep) VNull
   \<and> \<not> accepts_result ''eth_getUserOperationByHash'' (BundlerRpcSchema uo ep) VUndefined
   \<and> \<not> accepts_result ''eth_getUserOperationByHash'' (BundlerRpcSchema uo ep) (VObj [])
   \<and> \<not> accepts_result ''eth_getUserOperationReceipt'' (BundlerRpcSchema uo ep) VNull
   \<and> \<not> accepts_result ''eth_getUserOperationReceipt'' (BundlerRpcSchema uo ep) VUndefined
   \<and> \<not> accepts_result ''eth_getUserOperationReceipt'' (BundlerRpcSchema uo ep) (VObj [])"
  by (simp add: accepts_result_def return_types UserOpReceipt_def)

section \<open>The error envelope\<close>

text \<open>
  Claim C6, as stated, fails: an envelope whose \<^verbatim>\<open>code\<close> is the number -32602 is not a
  \<^verbatim>\<open>JsonRpcError\<close>, while the same envelope with the code written as a string is.
\<close>

theorem error_code_number_counterexample:
  "\<not> conforms JsonRpcError
       (VObj [ (''code'', VNum (- 32602)), (''message'', VStr ''Invalid params''),
               (''data'', VNull) ])
   \<and> conforms JsonRpcError
       (VObj [ (''code'', VStr ''-32602''), (''message'', VStr ''Invalid params''),
               (''data'', VNull) ])"
  by (simp add: JsonRpcError_def)

text \<open>
  Claim C6, amended. A value is a \<^verbatim>\<open>JsonRpcError\<close> exactly when it is an object with a
  string \<^verbatim>\<open>code\<close>, a string \<^verbatim>\<open>message\<close> and a \<^verbatim>\<open>data\<close> property of any value; an
  object whose \<^verbatim>\<open>code\<close> is a number is never one.
\<close>

theorem error_code_is_string:
  "(conforms JsonRpcError v \<longleftrightarrow>
      (\<exists>kvs. v = VObj kvs \<and>
        (\<exists>c. map_of kvs ''code'' = Some (VStr c)) \<and>
        (\<exists>m. map_of kvs ''message'' = Some (VStr m)) \<and>
        (\<exists>d. map_of kvs ''data'' = Some d)))
   \<and> \<not> conforms JsonRpcError (VObj ((''code'', VNum n) # kvs'))"
proof (intro conjI)
  show "conforms JsonRpcError v \<longleftrightarrow>
      (\<exists>kvs. v = VObj kvs \<and>
        (\<exists>c. map_of kvs ''code'' = Some (VStr c)) \<and>
        (\<exists>m. map_of kvs ''message'' = Some (VStr m)) \<and>
        (\<exists>d. map_of kvs ''data'' = Some d))"
  proof (cases v)
    case (VObj kvs)
    show ?thesis
      unfolding JsonRpcError_def VObj
      by (simp only: conforms.simps val.case val.inject list.pred_inject required_string
          required_any simp_thms ex_simps)
  qed (simp_all add: JsonRpcError_def)
  show "\<not> conforms JsonRpcError (VObj ((''code'', VNum n) # kvs'))"
    by (simp add: JsonRpcError_def)
qed

section \<open>The submission response\<close>

text \<open>
  Claim C7, as stated, fails: a response that carries both a \<^verbatim>\<open>result\<close> and an
  \<^verbatim>\<open>error\<close> is a \<^verbatim>\<open>SendUserOpResponse\<close>, and a failed response that carries the
  \<^verbatim>\<open>error\<close> without a \<^verbatim>\<open>result\<close> is not.
\<close>

theorem response_result_and_error_counterexample:
  "conforms SendUserOpResponse
     (VObj [ (''jsonrpc'', VStr ''2.0''), (''id'', VNum 1), (''result'', VStr ''0x00''),
             (''error'', VObj [ (''code'', VStr ''-32602''),
                                (''message'', VStr ''Invalid params''),
                                (''data'', VNull) ]) ])
   \<and> \<not> conforms SendUserOpResponse
     (VObj [ (''jsonrpc'', VStr ''2.0''), (''id'', VNum 1),
             (''error'', VObj [ (''code'', VStr ''-32602''),
                                (''message'', VStr ''Invalid params''),
                                (''data'', VNull) ]) ])"
  by (simp add: SendUserOpResponse_def JsonRpcError_def)

text \<open>
  Claim C7, amended. A value is a \<^verbatim>\<open>SendUserOpResponse\<close> exactly when it is an object
  with a string \<^verbatim>\<open>jsonrpc\<close>, a numeric \<^verbatim>\<open>id\<close> and a string \<^verbatim>\<open>result\<close>, all three
  always present, and an \<^verbatim>\<open>error\<close> that is absent, undefined or a \<^verbatim>\<open>JsonRpcError\<close>:
  the error is optional and comes beside the result, not instead of it.
\<close>

theorem response_result_required_error_optional:
  "conforms SendUserOpResponse v \<longleftrightarrow>
     (\<exists>kvs. v = VObj kvs \<and>
       (\<exists>j. map_of kvs ''jsonrpc'' = Some (VStr j)) \<and>
       (\<exists>i. map_of kvs ''id'' = Some (VNum i)) \<and>
       (\<exists>r. map_of kvs ''result'' = Some (VStr r)) \<and>
       (map_of kvs ''error'' = None \<or> map_of kvs ''error'' = Some VUndefined \<or>
         (\<exists>e. map_of kvs ''error'' = Some e \<and> conforms JsonRpcError e)))"
proof (cases v)
  case (VObj kvs)
  show ?thesis
    unfolding SendUserOpResponse_def VObj
    by (simp only: conforms.simps val.case val.inject list.pred_inject required_string
        required_number optional_prop simp_thms ex_simps)
qed (simp_all add: SendUserOpResponse_def)

section \<open>The receipt\<close>

text \<open>
  Claim C8, as stated, fails: a receipt with \<^verbatim>\<open>success: "true"\<close> and a non-empty
  \<^verbatim>\<open>reason\<close> is a \<^verbatim>\<open>UserOpReceipt\<close>, and so is one with \<^verbatim>\<open>success: "false"\<close> and an
  empty \<^verbatim>\<open>reason\<close>.
\<close>

theorem receipt_reason_unrelated_counterexample:
  "conforms UserOpReceipt
     (VObj [ (''userOpHash'', VStr ''0x01''), (''entryPoint'', VStr ''0x02''),
             (''paymaster'', VStr []), (''actualGasCost'', VStr ''0x10''),
             (''actualGasUsed'', VStr ''0x20''), (''success'', VStr ''true''),
             (''reason'', VStr ''execution reverted''), (''logs'', VArr []),
             (''receipt'', VObj []) ])
   \<and> ''execution reverted'' \<noteq> []
   \<and> conforms UserOpReceipt
     (VObj [ (''userOpHash'', VStr ''0x01''), (''entryPoint'', VStr ''0x02''),
             (''paymaster'', VStr []), (''actualGasCost'', VStr ''0x10''),
             (''actualGasUsed'', VStr ''0x20''), (''success'', VStr ''false''),
             (''reason'', VStr []), (''logs'', VArr []),
             (''receipt'', VObj []) ])"
  by (simp add: UserOpReceipt_def Hex_def)

text \<open>
  Claim C8, amended. In every \<^verbatim>\<open>UserOpReceipt\<close> the \<^verbatim>\<open>success\<close> field is one of the
  strings \<^verbatim>\<open>"true"\<close> and \<^verbatim>\<open>"false"\<close> and the \<^verbatim>\<open>reason\<close> field is a string; the type
  relates the two in no way: replacing the reason of a receipt by any string \<open>r'\<close>, empty
  or not, gives a receipt again.
\<close>

theorem receipt_success_and_reason_independent:
  "conforms UserOpReceipt (VObj kvs) \<longrightarrow>
     (map_of kvs ''success'' = Some (VStr ''true'') \<or>
      map_of kvs ''success'' = Some (VStr ''false''))
     \<and> (\<exists>r. map_of kvs ''reason'' = Some (VStr r))
     \<and> conforms UserOpReceipt (VObj ((''reason'', VStr r') # kvs))"
  by (auto simp: UserOpReceipt_def split: option.splits val.splits)

text \<open>
  Claim C8, amended, at a concrete input: the sample receipt reports success with an empty
  reason, and is still a receipt with the reason \<^verbatim>\<open>out of gas\<close> put in front.
\<close>

theorem receipt_success_and_reason_independent_witness:
  "conforms UserOpReceipt (VObj sample_receipt)
   \<and> map_of sample_receipt ''success'' = Some (VStr ''true'')
   \<and> map_of sample_receipt ''reason'' = Some (VStr [])
   \<and> conforms UserOpReceipt (VObj ((''reason'', VStr ''out of gas'') # sample_receipt))"
  using receipt_success_and_reason_independent [of sample_receipt "''out of gas''"]
  by (simp add: UserOpReceipt_def Hex_def sample_receipt_def)

section \<open>Conformance of the quantity-carrying types\<close>

lemma GasFeeValues_strings:
  "conforms GasFeeValues v \<longleftrightarrow>
     (\<exists>kvs. v = VObj kvs \<and>
       (\<exists>s. map_of kvs ''maxPriorityFeePerGas'' = Some (VStr s)) \<and>
       (\<exists>s. map_of kvs ''maxFeePerGas'' = Some (VStr s)))"
proof (cases v)
  case (VObj kvs)
  show ?thesis
    unfolding GasFeeValues_def VObj
    by (simp only: conforms.simps val.case val.inject list.pred_inject required_string
        simp_thms ex_simps)
qed (simp_all add: GasFeeValues_def)

lemma estimate_result_strings:
  "accepts_result ''eth_estimateUserOperationGas'' (BundlerRpcSchema uo ep) v \<longleftrightarrow>
     (\<exists>kvs. v = VObj kvs \<and>
       (\<exists>s. map_of kvs ''preVerificationGas'' = Some (VStr s)) \<and>
       (\<exists>s. map_of kvs ''verificationGasLimit'' = Some (VStr s)) \<and>
       (map_of kvs ''callGasLimit'' = None \<or> map_of kvs ''callGasLimit'' = Some VUndefined \<or>
         (\<exists>s. map_of kvs ''callGasLimit'' = Some (VStr s))) \<and>
       (\<exists>s. map_of kvs ''maxPriorityFeePerGas'' = Some (VStr s)) \<and>
       (\<exists>s. map_of kvs ''maxFeePerGas'' = Some (VStr s)))"
proof (cases v)
  case (VObj kvs)
  show ?thesis
    unfolding accepts_result_def return_types VObj
    by (simp only: conforms.simps val.case val.inject list.pred_inject required_string
        optional_string option.case simp_thms ex_simps)
qed (simp_all add: accepts_result_def return_types)

lemma chain_id_0x:
  "accepts_result ''eth_chainId'' (BundlerRpcSchema uo ep) v \<longleftrightarrow> (\<exists>r. v = VStr (''0x'' @ r))"
  by (simp add: accepts_result_def return_types conforms_Hex)

lemma included_operation_0x:
  "accepts_result ''eth_getUserOperationByHash'' (BundlerRpcSchema uo ep) v \<longleftrightarrow>
     conforms (UserOperationStruct uo) v \<and>
     (\<exists>kvs. v = VObj kvs \<and>
       (\<exists>e. map_of kvs ''entryPoint'' = Some e \<and> conforms (ENTRYPOINT_ADDRESS_V06_TYPE ep) e) \<and>
       (\<exists>r. map_of kvs ''transactionHash'' = Some (VStr (''0x'' @ r))) \<and>
       (\<exists>r. map_of kvs ''blockHash'' = Some (VStr (''0x'' @ r))) \<and>
       (\<exists>r. map_of kvs ''blockNumber'' = Some (VStr (''0x'' @ r))))"
proof (cases v)
  case (VObj kvs)
  show ?thesis
    unfolding accepts_result_def return_types VObj option.case conforms.simps(9)
    by (simp only: conforms.simps(11) val.case val.inject list.pred_inject required_Hex
        required_Hash required_prop [of "''entryPoint''"] simp_thms ex_simps)
qed (simp_all add: accepts_result_def return_types)

lemma UserOpReceipt_fields:
  "conforms UserOpReceipt v \<longleftrightarrow>
     (\<exists>kvs. v = VObj kvs \<and>
       (\<exists>s. map_of kvs ''userOpHash'' = Some (VStr s)) \<and>
       (\<exists>s. map_of kvs ''entryPoint'' = Some (VStr s)) \<and>
       (\<exists>s. map_of kvs ''paymaster'' = Some (VStr s)) \<and>
       (\<exists>r. map_of kvs ''actualGasCost'' = Some (VStr (''0x'' @ r))) \<and>
       (\<exists>r. map_of kvs ''actualGasUsed'' = Some (VStr (''0x'' @ r))) \<and>
       (map_of kvs ''success'' = Some (VStr ''true'') \<or>
        map_of kvs ''success'' = Some (VStr ''false'')) \<and>
       (\<exists>s. map_of kvs ''reason'' = Some (VStr s)) \<and>
       (\<exists>l. map_of kvs ''logs'' = Some (VArr l)) \<and>
       (\<exists>d. map_of kvs ''receipt'' = Some d))"
proof (cases v)
  case (VObj kvs)
  show ?thesis
    unfolding UserOpReceipt_def VObj conforms.simps(13)
    by (simp only: conforms.simps(11) val.case val.inject list.pred_inject required_string
        required_Hex required_one_of required_any_array required_any simp_thms ex_simps)
qed (simp_all add: UserOpReceipt_def)

section \<open>Numeric encodings\<close>

text \<open>
  Claim C9, as stated, fails in both halves. Fee values and gas estimates written as
  \<^verbatim>\<open>0x\<close>-prefixed hexadecimal numerals, which are not decimal numerals, are well-typed
  results of \<^verbatim>\<open>biconomy_getGasFeeValues\<close> and \<^verbatim>\<open>eth_estimateUserOperationGas\<close>. And
  \<^verbatim>\<open>0xzz\<close>, which is no hexadecimal numeral, is a well-typed result of \<^verbatim>\<open>eth_chainId\<close>
  and a well-typed \<^verbatim>\<open>blockNumber\<close> in a result of \<^verbatim>\<open>eth_getUserOperationByHash\<close>.
\<close>

theorem encoding_not_fixed_counterexample:
  "accepts_result ''biconomy_getGasFeeValues''
     (BundlerRpcSchema UserOperation_props EntryPointAddress)
     (VObj [ (''maxPriorityFeePerGas'', VStr ''0x3b9aca00''),
             (''maxFeePerGas'', VStr ''0x77359400'') ])
   \<and> \<not> is_decimal ''0x3b9aca00'' \<and> is_hex ''0x3b9aca00''
   \<and> \<not> is_decimal ''0x77359400'' \<and> is_hex ''0x77359400''
   \<and> accepts_result ''eth_estimateUserOperationGas''
     (BundlerRpcSchema UserOperation_props EntryPointAddress)
     (VObj [ (''preVerificationGas'', VStr ''0xc350''),
             (''verificationGasLimit'', VStr ''0x186a0''),
             (''maxPriorityFeePerGas'', VStr ''0x3b9aca00''),
             (''maxFeePerGas'', VStr ''0x77359400'') ])
   \<and> \<not> is_decimal ''0xc350'' \<and> is_hex ''0xc350''
   \<and> \<not> is_decimal ''0x186a0'' \<and> is_hex ''0x186a0''
   \<and> accepts_result ''eth_chainId''
     (BundlerRpcSchema UserOperation_props EntryPointAddress) (VStr ''0xzz'')
   \<and> accepts_result ''eth_getUserOperationByHash''
     (BundlerRpcSchema UserOperation_props EntryPointAddress)
     (VObj [ (''sender'', VStr ''0x99F3Bc8058503960364Ef3fDBF6407C9b0BbefCc''),
             (''nonce'', VStr ''0x0''),
             (''callData'', VStr ''0x0000189a''),
             (''callGasLimit'', VStr ''0x0''),
             (''verificationGasLimit'', VStr ''0x0''),
             (''preVerificationGas'', VStr ''0x0''),
             (''maxFeePerGas'', VStr ''0x0''),
             (''maxPriorityFeePerGas'', VStr ''0x0''),
             (''signature'', VStr ''0x00000000''),
             (''entryPoint'', VStr ''0x5FF137D4b0FDCD49DcA30c7CF57E578a026d2789''),
             (''transactionHash'', VStr ''0x01''),
             (''blockHash'', VStr ''0x02''),
             (''blockNumber'', VStr ''0xzz'') ])
   \<and> \<not> is_hex ''0xzz''"
  by (simp add: accepts_result_def return_types GasFeeValues_def is_decimal_def is_hex_def
      Hex_def Hash_def Address_def EntryPointAddress_def ENTRYPOINT_ADDRESS_V06_TYPE_def
      UserOperationStruct_def UserOperation_props_def)

text \<open>
  Claim C9, amended. The two groups of quantities differ in their declared type and in
  nothing else. A value is a well-typed result of \<^verbatim>\<open>biconomy_getGasFeeValues\<close> exactly
  when it is an object whose \<^verbatim>\<open>maxPriorityFeePerGas\<close> and \<^verbatim>\<open>maxFeePerGas\<close> are strings,
  and a well-typed result of \<^verbatim>\<open>eth_estimateUserOperationGas\<close> exactly when it is an
  object whose four required quantities are strings and whose \<^verbatim>\<open>callGasLimit\<close> is
  absent, undefined or a string: these quantities must be strings, and any string will
  do, decimal or not. A value is a well-typed result of \<^verbatim>\<open>eth_chainId\<close> exactly when it
  is a string that begins with \<^verbatim>\<open>0x\<close>, and a well-typed result of
  \<^verbatim>\<open>eth_getUserOperationByHash\<close> exactly when it is a user operation whose entry point
  has the entry-point type and whose \<^verbatim>\<open>transactionHash\<close>, \<^verbatim>\<open>blockHash\<close> and
  \<^verbatim>\<open>blockNumber\<close> are strings that begin with \<^verbatim>\<open>0x\<close>: chain id and block number must
  carry the prefix, and anything may follow it, hexadecimal digits or not.
\<close>

theorem plain_strings_versus_0x_strings:
  "(accepts_result ''biconomy_getGasFeeValues'' (BundlerRpcSchema uo ep) v \<longleftrightarrow>
      (\<exists>kvs. v = VObj kvs \<and>
        (\<exists>s. map_of kvs ''maxPriorityFeePerGas'' = Some (VStr s)) \<and>
        (\<exists>s. map_of kvs ''maxFeePerGas'' = Some (VStr s))))
   \<and> (accepts_result ''eth_estimateUserOperationGas'' (BundlerRpcSchema uo ep) v \<longleftrightarrow>
      (\<exists>kvs. v = VObj kvs \<and>
        (\<exists>s. map_of kvs ''preVerificationGas'' = Some (VStr s)) \<and>
        (\<exists>s. map_of kvs ''verificationGasLimit'' = Some (VStr s)) \<and>
        (map_of kvs ''callGasLimit'' = None \<or> map_of kvs ''callGasLimit'' = Some VUndefined \<or>
          (\<exists>s. map_of kvs ''callGasLimit'' = Some (VStr s))) \<and>
        (\<exists>s. map_of kvs ''maxPriorityFeePerGas'' = Some (VStr s)) \<and>
        (\<exists>s. map_of kvs ''maxFeePerGas'' = Some (VStr s))))
   \<and> (accepts_result ''eth_chainId'' (BundlerRpcSchema uo ep) v \<longleftrightarrow>
      (\<exists>r. v = VStr (''0x'' @ r)))
   \<and> (accepts_result ''eth_getUserOperationByHash'' (BundlerRpcSchema uo ep) v \<longleftrightarrow>
      conforms (UserOperationStruct uo) v \<and>
      (\<exists>kvs. v = VObj kvs \<and>
        (\<exists>e. map_of kvs ''entryPoint'' = Some e
              \<and> conforms (ENTRYPOINT_ADDRESS_V06_TYPE ep) e) \<and>
        (\<exists>r. map_of kvs ''transactionHash'' = Some (VStr (''0x'' @ r))) \<and>
        (\<exists>r. map_of kvs ''blockHash'' = Some (VStr (''0x'' @ r))) \<and>
        (\<exists>r. map_of kvs ''blockNumber'' = Some (VStr (''0x'' @ r)))))"
proof (intro conjI)
  have "accepts_result ''biconomy_getGasFeeValues'' (BundlerRpcSchema uo ep) v
      = conforms GasFeeValues v"
    by (simp add: accepts_result_def return_types)
  then show "accepts_result ''biconomy_getGasFeeValues'' (BundlerRpcSchema uo ep) v \<longleftrightarrow>
      (\<exists>kvs. v = VObj kvs \<and>
        (\<exists>s. map_of kvs ''maxPriorityFeePerGas'' = Some (VStr s)) \<and>
        (\<exists>s. map_of kvs ''maxFeePerGas'' = Some (VStr s)))"
    by (simp only: GasFeeValues_strings)
qed (rule estimate_result_strings chain_id_0x included_operation_0x)+

text \<open>
  Claim C10, as stated, fails. A receipt whose \<^verbatim>\<open>actualGasCost\<close> is \<^verbatim>\<open>0xunknown\<close> and
  whose \<^verbatim>\<open>actualGasUsed\<close> is the bare prefix \<^verbatim>\<open>0x\<close> is a \<^verbatim>\<open>UserOpReceipt\<close>, and neither
  is a hexadecimal numeral, so the receipt quantities need not parse in base 16. And the
  quantities of the fee oracle and of the gas estimate need not be base-10 strings:
  \<^verbatim>\<open>n/a\<close> is a well-typed fee value and a well-typed gas estimate.
\<close>

theorem receipt_gas_not_numeral_counterexample:
  "conforms UserOpReceipt
     (VObj [ (''userOpHash'', VStr ''0x01''), (''entryPoint'', VStr ''0x02''),
             (''paymaster'', VStr []), (''actualGasCost'', VStr ''0xunknown''),
             (''actualGasUsed'', VStr ''0x''), (''success'', VStr ''true''),
             (''reason'', VStr []), (''logs'', VArr []),
             (''receipt'', VObj []) ])
   \<and> \<not> is_hex ''0xunknown'' \<and> \<not> is_hex ''0x''
   \<and> conforms GasFeeValues
     (VObj [ (''maxPriorityFeePerGas'', VStr ''n/a''), (''maxFeePerGas'', VStr ''n/a'') ])
   \<and> accepts_result ''eth_estimateUserOperationGas''
     (BundlerRpcSchema UserOperation_props EntryPointAddress)
     (VObj [ (''preVerificationGas'', VStr ''n/a''),
             (''verificationGasLimit'', VStr ''n/a''),
             (''maxPriorityFeePerGas'', VStr ''n/a''),
             (''maxFeePerGas'', VStr ''n/a'') ])
   \<and> \<not> is_decimal ''n/a''"
  by (simp add: UserOpReceipt_def GasFeeValues_def Hex_def accepts_result_def return_types
      is_decimal_def is_hex_def)

text \<open>
  Claim C10, amended. A value is a \<^verbatim>\<open>UserOpReceipt\<close> exactly when it is an object whose
  \<^verbatim>\<open>actualGasCost\<close> and \<^verbatim>\<open>actualGasUsed\<close> are strings that begin with \<^verbatim>\<open>0x\<close> (and
  whose other seven properties have their declared types); such a string is never a
  decimal numeral, whatever follows the prefix, and nothing requires hexadecimal digits
  to follow it. The quantities of the fee oracle and of the gas estimate, in contrast,
  are strings and nothing more: a value is a \<^verbatim>\<open>GasFeeValues\<close>, or a well-typed result of
  \<^verbatim>\<open>eth_estimateUserOperationGas\<close>, exactly when it is an object whose quantities are
  strings (\<^verbatim>\<open>callGasLimit\<close> absent, undefined or a string).
\<close>

theorem receipt_gas_quantities_are_0x_strings:
  "(conforms UserOpReceipt v \<longleftrightarrow>
      (\<exists>kvs. v = VObj kvs \<and>
        (\<exists>s. map_of kvs ''userOpHash'' = Some (VStr s)) \<and>
        (\<exists>s. map_of kvs ''entryPoint'' = Some (VStr s)) \<and>
        (\<exists>s. map_of kvs ''paymaster'' = Some (VStr s)) \<and>
        (\<exists>r. map_of kvs ''actualGasCost'' = Some (VStr (''0x'' @ r))) \<and>
        (\<exists>r. map_of kvs ''actualGasUsed'' = Some (VStr (''0x'' @ r))) \<and>
        (map_of kvs ''success'' = Some (VStr ''true'') \<or>
         map_of kvs ''success'' = Some (VStr ''false'')) \<and>
        (\<exists>s. map_of kvs ''reason'' = Some (VStr s)) \<and>
        (\<exists>l. map_of kvs ''logs'' = Some (VArr l)) \<and>
        (\<exists>d. map_of kvs ''receipt'' = Some d)))
   \<and> \<not> is_decimal (''0x'' @ r)
   \<and> (conforms GasFeeValues w \<longleftrightarrow>
      (\<exists>kvs. w = VObj kvs \<and>
        (\<exists>s. map_of kvs ''maxPriorityFeePerGas'' = Some (VStr s)) \<and>
        (\<exists>s. map_of kvs ''maxFeePerGas'' = Some (VStr s))))
   \<and> (accepts_result ''eth_estimateUserOperationGas'' (BundlerRpcSchema uo ep) w \<longleftrightarrow>
      (\<exists>kvs. w = VObj kvs \<and>
        (\<exists>s. map_of kvs ''preVerificationGas'' = Some (VStr s)) \<and>
        (\<exists>s. map_of kvs ''verificationGasLimit'' = Some (VStr s)) \<and>
        (map_of kvs ''callGasLimit'' = None \<or> map_of kvs ''callGasLimit'' = Some VUndefined \<or>
          (\<exists>s. map_of kvs ''callGasLimit'' = Some (VStr s))) \<and>
        (\<exists>s. map_of kvs ''maxPriorityFeePerGas'' = Some (VStr s)) \<and>
        (\<exists>s. map_of kvs ''maxFeePerGas'' = Some (VStr s))))"
  by (intro conjI)
    (rule UserOpReceipt_fields not_decimal_0x GasFeeValues_strings estimate_result_strings)+

end
